theory Spec2Isabelle
  imports Complex_Main
begin

section \<open>Python values and the library functions left open\<close>

text \<open>
  The values the handler stores and exchanges are the ones \<open>json.loads\<close> produces,
  plus the values it writes in dict displays. Floats are kept as an opaque carrier
  \<open>'f\<close>: every float operation the code performs is a field of \<open>pyenv\<close>, so no
  property below depends on how floating point rounds.
\<close>

datatype 'f py =
    PNone
  | PBool bool
  | PInt int
  | PFloat 'f
  | PStr string
  | PList "'f py list"
  | PDict "(string \<times> 'f py) list"

datatype exn =
    ValueError
  | TypeError
  | KeyError
  | AttributeError
  | OverflowError
  | ZeroDivisionError
  | OtherException

text \<open>
  Library functions whose results the handler only passes on: \<open>json.loads\<close>, the
  \<open>dict\<close> constructor, and float arithmetic. \<open>float_of_int\<close> is the implicit
  conversion of an int operand in mixed arithmetic (\<open>None\<close>: OverflowError, the int is
  too large); \<open>fdiv_int x n\<close> is \<open>x / n\<close> for a float \<open>x\<close> and one of the small
  nonzero ints the code divides by (the literal 2, the length of a non-empty window),
  where the division cannot raise; \<open>fsum\<close> is the builtin \<open>sum\<close> on floats;
  \<open>fbool\<close> is \<open>bool(x)\<close> on a float; \<open>f1e100\<close> is the literal \<open>1e100\<close>.
\<close>

record 'f pyenv =
  json_loads :: "string \<Rightarrow> exn + 'f py"
  dict_ctor :: "'f py \<Rightarrow> exn + ('f py \<times> 'f py) list"
  float_of_int :: "int \<Rightarrow> 'f option"
  fadd :: "'f \<Rightarrow> 'f \<Rightarrow> 'f"
  fsub :: "'f \<Rightarrow> 'f \<Rightarrow> 'f"
  fdiv_int :: "'f \<Rightarrow> int \<Rightarrow> 'f"
  fsum :: "'f list \<Rightarrow> 'f"
  fbool :: "'f \<Rightarrow> bool"
  f1e100 :: "'f"

text \<open>\<open>bool(x)\<close>: the truth value Python gives a value.\<close>

fun truthy :: "'f pyenv \<Rightarrow> 'f py \<Rightarrow> bool" where
  "truthy env PNone = False"
| "truthy env (PBool b) = b"
| "truthy env (PInt i) = (i \<noteq> 0)"
| "truthy env (PFloat x) = fbool env x"
| "truthy env (PStr s) = (s \<noteq> [])"
| "truthy env (PList xs) = (xs \<noteq> [])"
| "truthy env (PDict d) = (d \<noteq> [])"

text \<open>A float operand of \<open>+\<close>, \<open>-\<close>: floats, ints and bools convert, anything else
  is a TypeError.\<close>

fun to_float :: "'f pyenv \<Rightarrow> 'f py \<Rightarrow> exn + 'f" where
  "to_float env (PFloat x) = Inr x"
| "to_float env (PInt i) =
     (case float_of_int env i of None \<Rightarrow> Inl OverflowError | Some x \<Rightarrow> Inr x)"
| "to_float env (PBool b) =
     (case float_of_int env (if b then 1 else 0) of
        None \<Rightarrow> Inl OverflowError | Some x \<Rightarrow> Inr x)"
| "to_float env v = Inl TypeError"

text \<open>\<open>d[k]\<close> and \<open>d[k] = v\<close> on a dict with string keys, in insertion order.\<close>

definition getitem :: "(string \<times> 'v) list \<Rightarrow> string \<Rightarrow> exn + 'v" where
  "getitem d k = (case map_of d k of None \<Rightarrow> Inl KeyError | Some v \<Rightarrow> Inr v)"

fun setitem :: "(string \<times> 'v) list \<Rightarrow> string \<Rightarrow> 'v \<Rightarrow> (string \<times> 'v) list" where
  "setitem [] k v = [(k, v)]"
| "setitem ((k', v') # d) k v =
     (if k' = k then (k, v) # d else (k', v') # setitem d k v)"

fun dict_update :: "(string \<times> 'v) list \<Rightarrow> (string \<times> 'v) list \<Rightarrow> (string \<times> 'v) list" where
  "dict_update d [] = d"
| "dict_update d ((k, v) # kw) = dict_update (setitem d k v) kw"

text \<open>\<open>needle in s\<close> on strings is a substring test.\<close>

fun starts_with :: "string \<Rightarrow> string \<Rightarrow> bool" where
  "starts_with s [] = True"
| "starts_with [] (c # p) = False"
| "starts_with (a # s) (c # p) = (a = c \<and> starts_with s p)"

fun substring_of :: "string \<Rightarrow> string \<Rightarrow> bool" where
  "substring_of p [] = (p = [])"
| "substring_of p (a # s) = (starts_with (a # s) p \<or> substring_of p s)"

text \<open>\<open>k in v\<close> for a string \<open>k\<close>: key membership on a dict, element membership on a
  list, substring on a string, TypeError on everything else.\<close>

fun py_contains :: "string \<Rightarrow> 'f py \<Rightarrow> exn + bool" where
  "py_contains k (PDict d) = Inr (k \<in> fst ` set d)"
| "py_contains k (PList xs) = Inr (PStr k \<in> set xs)"
| "py_contains k (PStr s) = Inr (substring_of k s)"
| "py_contains k v = Inl TypeError"

text \<open>\<open>v[k]\<close> for a string \<open>k\<close>: lists and strings take integer indices only, the
  other values are not subscriptable.\<close>

fun py_subscript :: "'f py \<Rightarrow> string \<Rightarrow> exn + 'f py" where
  "py_subscript (PDict d) k = getitem d k"
| "py_subscript v k = Inl TypeError"

text \<open>A deque with \<open>maxlen\<close>: appending to a full deque discards the oldest item.\<close>

definition deque_append :: "nat \<Rightarrow> 'a list \<Rightarrow> 'a \<Rightarrow> 'a list" where
  "deque_append maxlen xs x =
     (if maxlen = 0 then xs
      else if length xs \<ge> maxlen then drop (Suc (length xs) - maxlen) xs @ [x]
      else xs @ [x])"


section \<open>The judge handler\<close>

text \<open>
  \<open>SubmissionData\<close> is the named tuple of the dispatch metadata;
  \<open>get_related_submission_data\<close> returns one of them, or Python's \<open>None\<close>.
\<close>

record 'f SubmissionData =
  time :: "'f py"
  memory :: "'f py"
  short_circuit :: "'f py"
  pretests_only :: "'f py"
  contest_no :: "'f py"
  attempt_no :: "'f py"
  user_id :: "'f py"

text \<open>The module constant \<open>UPDATE_RATE_LIMIT\<close>. Its companion \<open>UPDATE_RATE_TIME\<close> is
  the float literal \<open>0.5\<close>; no function of the module reads either.\<close>

definition UPDATE_RATE_LIMIT :: nat where
  "UPDATE_RATE_LIMIT = 5"

text \<open>
  A \<open>threading.Timer(interval, function)\<close> object. Constructing one does not run
  anything: the function is called \<open>interval\<close> seconds after \<open>start()\<close>, and only
  then.
\<close>

datatype callback = Kill_if_no_response

record Timer =
  interval :: nat
  target :: callback
  started :: bool

text \<open>
  What the handler does to the outside world, oldest first: a message handed to the
  transport's \<open>send\<close>, the transport's \<open>close\<close>, a record on the logger
  \<open>judge.bridge\<close> (format string and arguments), a record on the audit logger
  \<open>judge.json.bridge\<close> (the dict that is serialised), the start of the ping thread.
\<close>

datatype level = INFO | WARNING | ERROR | EXCEPTION

datatype 'f effect =
    Sent "'f py"
  | Closed
  | Log level string "'f py list"
  | JsonLog level "'f py"
  | PingThreadStarted

text \<open>
  The attributes of a \<open>JudgeHandler\<close>. \<open>client_address\<close> and \<open>timeout\<close> belong to
  the transport base class; the fields \<open>priv_x\<close> are the attributes \<open>_x\<close>, and a
  method \<open>_m\<close> is the function \<open>m\<close>. The two deques of capacity 6 are lists, oldest
  sample first. \<open>out\<close> is the trace of effects.
\<close>

record 'f JudgeHandler =
  client_address :: "'f py"
  timeout :: "'f py"
  priv_working :: "'f py"
  priv_no_response_job :: "Timer option"
  priv_problems :: "'f py"
  executors :: "'f py"
  problems :: "('f py \<times> 'f py) list"
  latency :: "'f option"
  time_delta :: "'f option"
  load :: "'f py"
  name :: "'f py"
  is_disabled :: bool
  tier :: "'f py"
  batch_id :: "'f py"
  in_batch :: bool
  priv_stop_ping :: bool
  priv_ping_average :: "'f list"
  priv_time_delta :: "'f list"
  update_counter :: "(string \<times> 'f py) list"
  judge :: "'f py"
  judge_address :: "'f py"
  priv_submission_cache_id :: "'f py"
  priv_submission_cache :: "(string \<times> 'f py) list"
  out :: "'f effect list"

text \<open>\<open>__init__\<close>: the two arguments are what the base class's constructor stored.\<close>

definition init :: "'f pyenv \<Rightarrow> 'f py \<Rightarrow> 'f py \<Rightarrow> 'f JudgeHandler" where
  "init env address base_timeout =
     \<lparr> client_address = address,
       timeout = base_timeout,
       priv_working = PBool False,
       priv_no_response_job = None,
       priv_problems = PList [],
       executors = PDict [],
       problems = [],
       latency = None,
       time_delta = None,
       load = PFloat (f1e100 env),
       name = PNone,
       is_disabled = False,
       tier = PNone,
       batch_id = PNone,
       in_batch = False,
       priv_stop_ping = False,
       priv_ping_average = [],
       priv_time_delta = [],
       update_counter = [],
       judge = PNone,
       judge_address = PNone,
       priv_submission_cache_id = PNone,
       priv_submission_cache = [] ,
       out = [] \<rparr>"

definition emit :: "'f effect \<Rightarrow> 'f JudgeHandler \<Rightarrow> 'f JudgeHandler" where
  "emit e s = s\<lparr>out := out s @ [e]\<rparr>"

text \<open>
  Modelled from the spec: \<open>send\<close> and \<open>close\<close> of the transport base class
  \<open>ZlibPacketHandler\<close> (module \<open>base_handler\<close>, which is not among the sources).
  The base \<open>send\<close> delivers one framed message to the worker; \<open>close\<close> terminates
  the connection and sends nothing. Neither raises. \<open>JudgeHandler.send\<close> serialises
  its dict and calls the base \<open>send\<close>; the trace records the dict.
\<close>

definition send :: "'f py \<Rightarrow> 'f JudgeHandler \<Rightarrow> 'f JudgeHandler" where
  "send data s = emit (Sent data) s"

definition close :: "'f JudgeHandler \<Rightarrow> 'f JudgeHandler" where
  "close s = emit Closed s"

text \<open>The messages sent so far, and whether the connection was closed.\<close>

fun sent_messages :: "'f effect list \<Rightarrow> 'f py list" where
  "sent_messages [] = []"
| "sent_messages (Sent m # es) = m # sent_messages es"
| "sent_messages (e # es) = sent_messages es"

definition make_json_log ::
  "(string \<times> 'f py) list option \<Rightarrow> 'f py \<Rightarrow> (string \<times> 'f py) list \<Rightarrow> 'f JudgeHandler \<Rightarrow> 'f py" where
  "make_json_log packet sub kwargs s =
     (let data = [(''judge'', name s), (''address'', judge_address s)];
          sub1 = (case packet of
                    None \<Rightarrow> sub
                  | Some p \<Rightarrow>
                      if sub = PNone
                      then (case map_of p ''submission-id'' of None \<Rightarrow> PNone | Some v \<Rightarrow> v)
                      else sub);
          data1 = (if sub1 \<noteq> PNone then setitem data ''submission'' sub1 else data)
      in PDict (dict_update data1 kwargs))"

definition on_connect :: "'f JudgeHandler \<Rightarrow> 'f JudgeHandler" where
  "on_connect s =
     (let s1 = s\<lparr>timeout := PInt 15\<rparr>;
          s2 = emit (Log INFO ''Judge connected from: %s'' [client_address s1]) s1
      in emit (JsonLog INFO (make_json_log None PNone [(''action'', PStr ''connect'')] s2)) s2)"

definition on_disconnect :: "'f pyenv \<Rightarrow> 'f JudgeHandler \<Rightarrow> 'f JudgeHandler" where
  "on_disconnect env s =
     (let s1 = s\<lparr>priv_stop_ping := True\<rparr>;
          s2 = (if truthy env (priv_working s1)
                then emit (Log ERROR ''Judge %s disconnected while handling submission %s''
                             [name s1, priv_working s1]) s1
                else s1);
          s3 = emit (Log INFO ''Judge disconnected from: %s with name %s''
                       [client_address s2, name s2]) s2
      in emit (JsonLog INFO (make_json_log None PNone
                 [(''action'', PStr ''disconnect''), (''info'', PStr ''judge disconnected'')] s3)) s3)"

definition authenticate :: "'f py \<Rightarrow> 'f py \<Rightarrow> bool" where
  "authenticate ident key = True"

text \<open>
  \<open>on_handshake\<close>, with the credential check as a parameter: the method
  \<open>_authenticate\<close> of the source accepts everything, so the rejection branch is
  reached only under another check. The result is the exception raised, if any, and
  the handler as the call left it.
\<close>

definition on_handshake_with ::
  "('f py \<Rightarrow> 'f py \<Rightarrow> bool) \<Rightarrow> 'f pyenv \<Rightarrow> (string \<times> 'f py) list \<Rightarrow> 'f JudgeHandler
     \<Rightarrow> exn option \<times> 'f JudgeHandler" where
  "on_handshake_with auth env packet s =
     (case (map_of packet ''id'', map_of packet ''key'') of
        (Some ident, Some key) \<Rightarrow>
          if \<not> auth ident key then (None, close s)
          else
            (let s1 = s\<lparr>timeout := PInt 60\<rparr> in
             case getitem packet ''problems'' of
               Inl e \<Rightarrow> (Some e, s1)
             | Inr ps \<Rightarrow>
                 (let s2 = s1\<lparr>priv_problems := ps\<rparr> in
                  case dict_ctor env ps of
                    Inl e \<Rightarrow> (Some e, s2)
                  | Inr d \<Rightarrow>
                      (let s3 = s2\<lparr>problems := d\<rparr> in
                       case getitem packet ''executors'' of
                         Inl e \<Rightarrow> (Some e, s3)
                       | Inr ex \<Rightarrow>
                           (let s4 = s3\<lparr>executors := ex, name := ident\<rparr>;
                                s5 = send (PDict [(''name'', PStr ''handshake-success'')]) s4;
                                s6 = emit (Log INFO ''Judge authenticated: %s (%s)''
                                             [client_address s5, ident]) s5
                            in (None, emit PingThreadStarted s6)))))
      | _ \<Rightarrow>
          (None, close (emit (Log WARNING ''Malformed handshake: %s'' [client_address s]) s)))"

definition on_handshake ::
  "'f pyenv \<Rightarrow> (string \<times> 'f py) list \<Rightarrow> 'f JudgeHandler \<Rightarrow> exn option \<times> 'f JudgeHandler" where
  "on_handshake = on_handshake_with authenticate"

text \<open>The property \<open>working\<close> and \<open>get_current_submission\<close>.\<close>

definition working :: "'f pyenv \<Rightarrow> 'f JudgeHandler \<Rightarrow> bool" where
  "working env s = truthy env (priv_working s)"

definition get_current_submission :: "'f pyenv \<Rightarrow> 'f JudgeHandler \<Rightarrow> 'f py" where
  "get_current_submission env s =
     (if truthy env (priv_working s) then priv_working s else PNone)"

text \<open>\<open>get_related_submission_data\<close>: the body is \<open>pass\<close>, the call returns \<open>None\<close>.\<close>

definition get_related_submission_data ::
  "'f py \<Rightarrow> 'f JudgeHandler \<Rightarrow> 'f SubmissionData option" where
  "get_related_submission_data submission s = None"

definition disconnect :: "bool \<Rightarrow> 'f JudgeHandler \<Rightarrow> 'f JudgeHandler" where
  "disconnect force s =
     (if force then close s else send (PDict [(''name'', PStr ''disconnect'')]) s)"

text \<open>
  \<open>submit\<close>. The timer is constructed and stored, and \<open>start()\<close> is not called on it.
  The argument of \<open>send\<close> is evaluated before the call: reading \<open>data.time\<close> on \<open>None\<close>
  raises AttributeError, and then nothing is sent.
\<close>

definition submit ::
  "'f py \<Rightarrow> 'f py \<Rightarrow> 'f py \<Rightarrow> 'f py \<Rightarrow> 'f JudgeHandler \<Rightarrow> exn option \<times> 'f JudgeHandler" where
  "submit ident problem language source s =
     (let data = get_related_submission_data ident s;
          s1 = s\<lparr>priv_working := ident\<rparr>;
          s2 = s1\<lparr>priv_no_response_job :=
                    Some \<lparr>interval = 20, target = Kill_if_no_response, started = False\<rparr>\<rparr>
      in case data of
           None \<Rightarrow> (Some AttributeError, s2)
         | Some d \<Rightarrow>
             (None, send (PDict
                [(''name'', PStr ''submission-request''),
                 (''submission-id'', ident),
                 (''problem-id'', problem),
                 (''language'', language),
                 (''source'', source),
                 (''time-limit'', time d),
                 (''memory-limit'', memory d),
                 (''short-circuit'', short_circuit d),
                 (''meta'', PDict
                    [(''pretests-only'', pretests_only d),
                     (''in-contest'', contest_no d),
                     (''attempt-no'', attempt_no d),
                     (''user'', user_id d)])]) s2))"

definition kill_if_no_response :: "'f JudgeHandler \<Rightarrow> 'f JudgeHandler" where
  "kill_if_no_response s =
     close (emit (Log ERROR ''Judge failed to acknowledge submission: %s: %s''
                    [name s, priv_working s]) s)"

text \<open>
  When a stored timer can call its function: only a started timer runs. This is the
  one place where the handler could be closed for a missing acknowledgment.
\<close>

definition timer_can_fire :: "'f JudgeHandler \<Rightarrow> bool" where
  "timer_can_fire s =
     (case priv_no_response_job s of None \<Rightarrow> False | Some t \<Rightarrow> started t)"

definition on_timeout :: "'f pyenv \<Rightarrow> 'f JudgeHandler \<Rightarrow> 'f JudgeHandler" where
  "on_timeout env s =
     (if truthy env (name s)
      then emit (Log WARNING ''Judge seems dead: %s: %s'' [name s, priv_working s]) s
      else s)"

definition abort :: "'f JudgeHandler \<Rightarrow> 'f JudgeHandler" where
  "abort s = send (PDict [(''name'', PStr ''terminate-submission'')]) s"

definition ping :: "'f \<Rightarrow> 'f JudgeHandler \<Rightarrow> 'f JudgeHandler" where
  "ping now s = send (PDict [(''name'', PStr ''ping''), (''when'', PFloat now)]) s"


section \<open>Inbound messages\<close>

text \<open>The handlers whose body is \<open>pass\<close> (and the hooks \<open>_connected\<close>,
  \<open>_disconnected\<close>, \<open>_update_ping\<close>) return without touching the handler.\<close>

definition on_submission_acknowledged ::
  "(string \<times> 'f py) list \<Rightarrow> 'f JudgeHandler \<Rightarrow> exn option \<times> 'f JudgeHandler" where
  "on_submission_acknowledged packet s = (None, s)"

definition on_supported_problems ::
  "(string \<times> 'f py) list \<Rightarrow> 'f JudgeHandler \<Rightarrow> exn option \<times> 'f JudgeHandler" where
  "on_supported_problems packet s = (None, s)"

definition on_grading_begin ::
  "(string \<times> 'f py) list \<Rightarrow> 'f JudgeHandler \<Rightarrow> exn option \<times> 'f JudgeHandler" where
  "on_grading_begin packet s =
     (case getitem packet ''submission-id'' of
        Inl e \<Rightarrow> (Some e, s)
      | Inr sid \<Rightarrow>
          (None, (emit (Log INFO ''%s: Grading has begun on: %s'' [name s, sid]) s)
                   \<lparr>batch_id := PNone\<rparr>))"

definition on_grading_end ::
  "(string \<times> 'f py) list \<Rightarrow> 'f JudgeHandler \<Rightarrow> exn option \<times> 'f JudgeHandler" where
  "on_grading_end packet s = (None, s)"

definition on_compile_error ::
  "(string \<times> 'f py) list \<Rightarrow> 'f JudgeHandler \<Rightarrow> exn option \<times> 'f JudgeHandler" where
  "on_compile_error packet s = (None, s)"

definition on_compile_message ::
  "(string \<times> 'f py) list \<Rightarrow> 'f JudgeHandler \<Rightarrow> exn option \<times> 'f JudgeHandler" where
  "on_compile_message packet s = (None, s)"

definition on_internal_error ::
  "(string \<times> 'f py) list \<Rightarrow> 'f JudgeHandler \<Rightarrow> exn option \<times> 'f JudgeHandler" where
  "on_internal_error packet s = (None, s)"

definition on_submission_terminated ::
  "(string \<times> 'f py) list \<Rightarrow> 'f JudgeHandler \<Rightarrow> exn option \<times> 'f JudgeHandler" where
  "on_submission_terminated packet s = (None, s)"

definition on_batch_begin ::
  "(string \<times> 'f py) list \<Rightarrow> 'f JudgeHandler \<Rightarrow> exn option \<times> 'f JudgeHandler" where
  "on_batch_begin packet s = (None, s)"

definition on_batch_end ::
  "(string \<times> 'f py) list \<Rightarrow> 'f JudgeHandler \<Rightarrow> exn option \<times> 'f JudgeHandler" where
  "on_batch_end packet s = (None, s)"

definition on_test_case ::
  "(string \<times> 'f py) list \<Rightarrow> nat \<Rightarrow> 'f JudgeHandler \<Rightarrow> exn option \<times> 'f JudgeHandler" where
  "on_test_case packet max_feedback s = (None, s)"

definition on_malformed :: "'f py \<Rightarrow> 'f JudgeHandler \<Rightarrow> 'f JudgeHandler" where
  "on_malformed packet s =
     (let s1 = emit (Log ERROR ''%s: Malformed packet: %s'' [name s, packet]) s
      in emit (JsonLog EXCEPTION
                 (make_json_log None (priv_working s1)
                    [(''info'', PStr ''malformed json packet'')] s1)) s1)"

definition packet_exception :: "'f JudgeHandler \<Rightarrow> 'f JudgeHandler" where
  "packet_exception s =
     emit (JsonLog EXCEPTION
             (make_json_log None (priv_working s)
                [(''info'', PStr ''packet processing exception'')] s)) s"

text \<open>\<open>sum(window) / len(window)\<close>: the arithmetic mean as Python computes it, a
  ZeroDivisionError on an empty window.\<close>

definition window_mean :: "'f pyenv \<Rightarrow> 'f list \<Rightarrow> 'f" where
  "window_mean env xs = fdiv_int env (fsum env xs) (int (length xs))"

definition mean :: "'f pyenv \<Rightarrow> 'f list \<Rightarrow> exn + 'f" where
  "mean env xs = (if length xs = 0 then Inl ZeroDivisionError else Inr (window_mean env xs))"

text \<open>
  \<open>on_ping_response\<close>; \<open>end\<close> is the reading of \<open>time.time()\<close>. Each statement that
  can raise leaves the assignments before it in place.
\<close>

definition on_ping_response ::
  "'f pyenv \<Rightarrow> 'f \<Rightarrow> (string \<times> 'f py) list \<Rightarrow> 'f JudgeHandler
     \<Rightarrow> exn option \<times> 'f JudgeHandler" where
  "on_ping_response env end packet s =
     (case getitem packet ''when'' of
        Inl e \<Rightarrow> (Some e, s)
      | Inr wv \<Rightarrow>
     (case to_float env wv of
        Inl e \<Rightarrow> (Some e, s)
      | Inr w \<Rightarrow>
     (let s1 = s\<lparr>priv_ping_average := deque_append 6 (priv_ping_average s) (fsub env end w)\<rparr> in
      case getitem packet ''time'' of
        Inl e \<Rightarrow> (Some e, s1)
      | Inr tv \<Rightarrow>
     (case to_float env tv of
        Inl e \<Rightarrow> (Some e, s1)
      | Inr t \<Rightarrow>
     (let s2 = s1\<lparr>priv_time_delta :=
                    deque_append 6 (priv_time_delta s1)
                      (fsub env (fdiv_int env (fadd env end w) 2) t)\<rparr> in
      case mean env (priv_ping_average s2) of
        Inl e \<Rightarrow> (Some e, s2)
      | Inr l \<Rightarrow>
     (let s3 = s2\<lparr>latency := Some l\<rparr> in
      case mean env (priv_time_delta s3) of
        Inl e \<Rightarrow> (Some e, s3)
      | Inr d \<Rightarrow>
     (let s4 = s3\<lparr>time_delta := Some d\<rparr> in
      case getitem packet ''load'' of
        Inl e \<Rightarrow> (Some e, s4)
      | Inr ld \<Rightarrow> (None, s4\<lparr>load := ld\<rparr>))))))))"

text \<open>The dispatch table \<open>self.handlers\<close>, and \<open>handlers.get(key, self.on_malformed)\<close>:
  a list or a dict as the key is unhashable, any other key that is not one of the
  thirteen strings gives the default.\<close>

datatype handler =
    H_grading_begin
  | H_grading_end
  | H_compile_error
  | H_compile_message
  | H_batch_begin
  | H_batch_end
  | H_test_case
  | H_internal_error
  | H_submission_terminated
  | H_submission_acknowledged
  | H_ping_response
  | H_supported_problems
  | H_handshake
  | H_malformed

definition handlers :: "(string \<times> handler) list" where
  "handlers =
     [(''grading-begin'', H_grading_begin),
      (''grading-end'', H_grading_end),
      (''compile-error'', H_compile_error),
      (''compile-message'', H_compile_message),
      (''batch-begin'', H_batch_begin),
      (''batch-end'', H_batch_end),
      (''test-case-status'', H_test_case),
      (''internal-error'', H_internal_error),
      (''submission-terminated'', H_submission_terminated),
      (''submission-acknowledged'', H_submission_acknowledged),
      (''ping-response'', H_ping_response),
      (''supported-problems'', H_supported_problems),
      (''handshake'', H_handshake)]"

fun handlers_get :: "'f py \<Rightarrow> exn + handler" where
  "handlers_get (PStr k) =
     Inr (case map_of handlers k of None \<Rightarrow> H_malformed | Some h \<Rightarrow> h)"
| "handlers_get (PList xs) = Inl TypeError"
| "handlers_get (PDict d) = Inl TypeError"
| "handlers_get v = Inr H_malformed"

fun call_handler ::
  "'f pyenv \<Rightarrow> 'f \<Rightarrow> handler \<Rightarrow> (string \<times> 'f py) list \<Rightarrow> 'f JudgeHandler
     \<Rightarrow> exn option \<times> 'f JudgeHandler" where
  "call_handler env now H_grading_begin packet s = on_grading_begin packet s"
| "call_handler env now H_grading_end packet s = on_grading_end packet s"
| "call_handler env now H_compile_error packet s = on_compile_error packet s"
| "call_handler env now H_compile_message packet s = on_compile_message packet s"
| "call_handler env now H_batch_begin packet s = on_batch_begin packet s"
| "call_handler env now H_batch_end packet s = on_batch_end packet s"
| "call_handler env now H_test_case packet s = on_test_case packet 100 s"
| "call_handler env now H_internal_error packet s = on_internal_error packet s"
| "call_handler env now H_submission_terminated packet s = on_submission_terminated packet s"
| "call_handler env now H_submission_acknowledged packet s =
     on_submission_acknowledged packet s"
| "call_handler env now H_ping_response packet s = on_ping_response env now packet s"
| "call_handler env now H_supported_problems packet s = on_supported_problems packet s"
| "call_handler env now H_handshake packet s = on_handshake env packet s"
| "call_handler env now H_malformed packet s = (None, on_malformed (PDict packet) s)"

text \<open>The outer \<open>except Exception\<close> of \<open>on_packet\<close>.\<close>

definition packet_failure :: "'f JudgeHandler \<Rightarrow> 'f JudgeHandler" where
  "packet_failure s =
     packet_exception
       (emit (Log EXCEPTION ''Error in packet handling (Judge-side): %s'' [name s]) s)"

text \<open>
  \<open>on_packet\<close>; \<open>now\<close> is what \<open>time.time()\<close> returns while the packet is handled.
  The inner \<open>except\<close> takes a ValueError only, from \<open>json.loads\<close> or from the missing
  \<open>name\<close>, and hands the handler the undecoded text or the decoded value. The test
  \<open>'name' not in data\<close> raises TypeError on a number, a bool or \<open>None\<close>, and
  \<open>data['name']\<close> raises TypeError on a list or a string; both reach the outer
  \<open>except\<close>, as does whatever the selected handler raises.
\<close>

definition on_packet :: "'f pyenv \<Rightarrow> 'f \<Rightarrow> string \<Rightarrow> 'f JudgeHandler \<Rightarrow> 'f JudgeHandler" where
  "on_packet env now data s =
     (case json_loads env data of
        Inl e \<Rightarrow> if e = ValueError then on_malformed (PStr data) s else packet_failure s
      | Inr v \<Rightarrow>
          (case py_contains ''name'' v of
             Inl e \<Rightarrow> packet_failure s
           | Inr False \<Rightarrow> on_malformed v s
           | Inr True \<Rightarrow>
               (case v of
                  PDict d \<Rightarrow>
                    (case getitem d ''name'' of
                       Inl e \<Rightarrow> packet_failure s
                     | Inr key \<Rightarrow>
                         (case handlers_get key of
                            Inl e \<Rightarrow> packet_failure s
                          | Inr h \<Rightarrow>
                              (case call_handler env now h d s of
                                 (None, s1) \<Rightarrow> s1
                               | (Some e, s1) \<Rightarrow> packet_failure s1)))
                | _ \<Rightarrow> packet_failure s)))"

text \<open>A run of inbound packets, each with the clock reading at its arrival.\<close>

fun on_packets :: "'f pyenv \<Rightarrow> ('f \<times> string) list \<Rightarrow> 'f JudgeHandler \<Rightarrow> 'f JudgeHandler" where
  "on_packets env [] s = s"
| "on_packets env ((now, data) # rest) s = on_packets env rest (on_packet env now data s)"

text \<open>A run of ping responses, each with the clock reading at its arrival.\<close>

fun on_ping_responses ::
  "'f pyenv \<Rightarrow> ('f \<times> (string \<times> 'f py) list) list \<Rightarrow> 'f JudgeHandler \<Rightarrow> 'f JudgeHandler" where
  "on_ping_responses env [] s = s"
| "on_ping_responses env ((end, packet) # rest) s =
     on_ping_responses env rest (snd (on_ping_response env end packet s))"


section \<open>A concrete environment for the examples\<close>

text \<open>
  The examples run with exact rational arithmetic in place of the floats (they use
  numbers on which the two agree), and with \<open>json.loads\<close> given by the decoding of
  the few texts they feed in; any other text is rejected. The \<open>dict\<close> constructor is
  given on a dict and on an empty list.
\<close>

definition example_texts :: "(string \<times> rat py) list" where
  \<open>example_texts =
     [(''5'', PInt 5),
      (''{"name":"grading-end","submission-id":"42"}'',
         PDict [(''name'', PStr ''grading-end''), (''submission-id'', PStr ''42'')]),
      (''{"name":"submission-acknowledged","submission-id":"42"}'',
         PDict [(''name'', PStr ''submission-acknowledged''), (''submission-id'', PStr ''42'')]),
      (''{"name":"test-case-status","submission-id":"42","position":1,"status":0}'',
         PDict [(''name'', PStr ''test-case-status''), (''submission-id'', PStr ''42''),
                (''position'', PInt 1), (''status'', PInt 0)]),
      (''{"name":"no-such-message"}'', PDict [(''name'', PStr ''no-such-message'')]),
      (''{"id":"judge1","problems":[],"executors":{}}'',
         PDict [(''id'', PStr ''judge1''), (''problems'', PList []), (''executors'', PDict [])])]\<close>

definition example_env :: "rat pyenv" where
  "example_env =
     \<lparr> json_loads = (\<lambda>data. case map_of example_texts data of
                                None \<Rightarrow> Inl ValueError | Some v \<Rightarrow> Inr v),
       dict_ctor = (\<lambda>v. case v of
                           PDict d \<Rightarrow> Inr (map (\<lambda>(k, x). (PStr k, x)) d)
                         | PList [] \<Rightarrow> Inr []
                         | _ \<Rightarrow> Inl TypeError),
       float_of_int = (\<lambda>i. Some (of_int i)),
       fadd = (\<lambda>x y. x + y),
       fsub = (\<lambda>x y. x - y),
       fdiv_int = (\<lambda>x n. x / of_int n),
       fsum = sum_list,
       fbool = (\<lambda>x. x \<noteq> 0),
       f1e100 = 10 ^ 100 \<rparr>"

text \<open>A fresh handler, and the same handler after \<open>submit('42', 'aplusb', 'PY3', 'print(1)')\<close>.\<close>

definition fresh :: "rat JudgeHandler" where
  "fresh = init example_env (PStr ''10.0.0.7'') PNone"

definition after_submit_42 :: "rat JudgeHandler" where
  "after_submit_42 =
     snd (submit (PStr ''42'') (PStr ''aplusb'') (PStr ''PY3'') (PStr ''print(1)'') fresh)"

text \<open>A ping response as a worker sends it.\<close>

definition ping_response_packet :: "'f \<Rightarrow> 'f \<Rightarrow> 'f \<Rightarrow> (string \<times> 'f py) list" where
  "ping_response_packet sent reported ld =
     [(''name'', PStr ''ping-response''), (''when'', PFloat sent),
      (''time'', PFloat reported), (''load'', PFloat ld)]"


text \<open>Seven ping responses with the clock reading at their arrival and the two times
  they carry: round trips of 10, 20, ..., 70 and clock offsets of 1, 2, ..., 7.\<close>

definition seven_observations :: "(rat \<times> (string \<times> rat py) list \<times> rat \<times> rat) list" where
  "seven_observations =
     [(110, ping_response_packet 100 104 1, 100, 104),
      (220, ping_response_packet 200 208 1, 200, 208),
      (330, ping_response_packet 300 312 1, 300, 312),
      (440, ping_response_packet 400 416 1, 400, 416),
      (550, ping_response_packet 500 520 1, 500, 520),
      (660, ping_response_packet 600 624 1, 600, 624),
      (770, ping_response_packet 700 728 1, 700, 728)]"

text \<open>One ping response whose times are JSON integers; the handler after a first
  well-formed ping response; and a ping response that lacks \<open>time\<close>.\<close>

definition one_observation :: "(rat \<times> (string \<times> rat py) list \<times> rat \<times> rat) list" where
  "one_observation =
     [(110, [(''name'', PStr ''ping-response''), (''when'', PInt 100),
             (''time'', PInt 104), (''load'', PFloat 1)], 100, 104)]"

definition after_one_ping :: "rat JudgeHandler" where
  "after_one_ping = snd (on_ping_response example_env 110 (ping_response_packet 100 104 1) fresh)"

definition ping_without_time :: "(string \<times> rat py) list" where
  "ping_without_time =
     [(''name'', PStr ''ping-response''), (''when'', PFloat 200), (''load'', PFloat 1)]"

section \<open>Notions used to state the properties\<close>

text \<open>What \<open>submit\<close> records about the dispatch: the current submission and the timer.\<close>

definition dispatch_state :: "'f JudgeHandler \<Rightarrow> 'f py \<times> Timer option" where
  "dispatch_state s = (priv_working s, priv_no_response_job s)"

text \<open>
  A packet that selects none of the thirteen handlers: the text does not decode, or
  the decoded value is not a dict, or the dict has no \<open>name\<close>, or the name is not a
  key of the dispatch table.
\<close>

definition not_dispatchable :: "'f pyenv \<Rightarrow> string \<Rightarrow> bool" where
  "not_dispatchable env data =
     (case json_loads env data of
        Inl e \<Rightarrow> True
      | Inr (PDict d) \<Rightarrow>
          (case map_of d ''name'' of
             Some (PStr k) \<Rightarrow> map_of handlers k = None
           | _ \<Rightarrow> True)
      | Inr _ \<Rightarrow> True)"

text \<open>
  For such a packet, what \<open>on_malformed\<close> is called with, if it is called: the
  undecoded text after a ValueError, the decoded value when it is a dict, a list or a
  string in which \<open>name\<close> is not found, or a dict whose name is hashable. \<open>None\<close>: the
  packet ends in the outer \<open>except\<close> instead.
\<close>

definition malformed_argument :: "'f pyenv \<Rightarrow> string \<Rightarrow> 'f py option" where
  "malformed_argument env data =
     (case json_loads env data of
        Inl e \<Rightarrow> if e = ValueError then Some (PStr data) else None
      | Inr (PDict d) \<Rightarrow>
          (case map_of d ''name'' of
             Some (PList xs) \<Rightarrow> None
           | Some (PDict kv) \<Rightarrow> None
           | _ \<Rightarrow> Some (PDict d))
      | Inr (PList xs) \<Rightarrow> if PStr ''name'' \<in> set xs then None else Some (PList xs)
      | Inr (PStr t) \<Rightarrow> if substring_of ''name'' t then None else Some (PStr t)
      | Inr _ \<Rightarrow> None)"

text \<open>
  The float a JSON number stands for when it meets a float in \<open>+\<close> or \<open>-\<close>, by
  Python's rules: a float is itself; an int, and a bool (which is an int, \<open>True\<close> being
  1), is converted, unless it is too large. Nothing else is a number.
\<close>

definition number_as_float :: "'f pyenv \<Rightarrow> 'f py \<Rightarrow> 'f \<Rightarrow> bool" where
  "number_as_float env v x =
     (case v of
        PFloat y \<Rightarrow> y = x
      | PInt i \<Rightarrow> float_of_int env i = Some x
      | PBool b \<Rightarrow> float_of_int env (if b then 1 else 0) = Some x
      | _ \<Rightarrow> False)"

text \<open>A ping response that carries \<open>when\<close> and \<open>time\<close>, both of them numbers, standing
  for the floats \<open>w\<close> and \<open>t\<close>.\<close>

definition carries_times :: "'f pyenv \<Rightarrow> (string \<times> 'f py) list \<Rightarrow> 'f \<Rightarrow> 'f \<Rightarrow> bool" where
  "carries_times env packet w t =
     (case (map_of packet ''when'', map_of packet ''time'') of
        (Some wv, Some tv) \<Rightarrow> number_as_float env wv w \<and> number_as_float env tv t
      | _ \<Rightarrow> False)"

text \<open>The newest \<open>n\<close> items of a list that is kept oldest first.\<close>

definition newest :: "nat \<Rightarrow> 'a list \<Rightarrow> 'a list" where
  "newest n xs = drop (length xs - n) xs"

section \<open>Properties\<close>

subsection \<open>Inbound packets leave the dispatch state alone\<close>

lemma dispatch_state_emit [simp]: "dispatch_state (emit e s) = dispatch_state s"
  by (simp add: dispatch_state_def emit_def)

lemma dispatch_state_on_malformed [simp]:
  "dispatch_state (on_malformed v s) = dispatch_state s"
  by (simp add: on_malformed_def Let_def)

lemma dispatch_state_packet_failure [simp]:
  "dispatch_state (packet_failure s) = dispatch_state s"
  by (simp add: packet_failure_def packet_exception_def)

lemma dispatch_state_on_ping_response [simp]:
  "dispatch_state (snd (on_ping_response env e p s)) = dispatch_state s"
  by (simp add: on_ping_response_def Let_def dispatch_state_def split: sum.splits)

lemma dispatch_state_on_handshake [simp]:
  "dispatch_state (snd (on_handshake_with auth env p s)) = dispatch_state s"
  by (simp add: on_handshake_with_def Let_def dispatch_state_def send_def close_def emit_def
      split: sum.splits option.splits)

lemma dispatch_state_on_grading_begin [simp]:
  "dispatch_state (snd (on_grading_begin p s)) = dispatch_state s"
  by (simp add: on_grading_begin_def dispatch_state_def emit_def split: sum.splits)

lemma dispatch_state_call_handler [simp]:
  "dispatch_state (snd (call_handler env now h p s)) = dispatch_state s"
  by (cases h)
     (simp_all add: on_grading_end_def on_compile_error_def on_compile_message_def
        on_batch_begin_def on_batch_end_def on_test_case_def on_internal_error_def
        on_submission_terminated_def on_submission_acknowledged_def
        on_supported_problems_def on_handshake_def)

lemma dispatch_state_on_packet [simp]:
  "dispatch_state (on_packet env now data s) = dispatch_state s"
proof -
  have h: "dispatch_state (case call_handler env now h d s of
               (None, s1) \<Rightarrow> s1 | (Some e, s1) \<Rightarrow> packet_failure s1) = dispatch_state s"
    for h d
    using dispatch_state_call_handler [of env now h d s]
    by (cases "call_handler env now h d s") (auto split: option.splits)
  show ?thesis
    by (simp add: on_packet_def h split: sum.splits bool.splits py.splits)
qed

lemma dispatch_state_on_packets [simp]:
  "dispatch_state (on_packets env evs s) = dispatch_state s"
  by (induction evs arbitrary: s) auto

subsection \<open>A packet with a string name reaches the handler the table gives\<close>

lemma has_key_member: "map_of d k = Some v \<Longrightarrow> k \<in> fst ` set d"
  by (auto dest: map_of_SomeD intro: rev_image_eqI)

lemma on_packet_named:
  assumes "json_loads env data = Inr (PDict d)" and "map_of d ''name'' = Some (PStr k)"
  shows "on_packet env now data s =
           (case call_handler env now
                   (case map_of handlers k of None \<Rightarrow> H_malformed | Some h \<Rightarrow> h) d s of
              (None, s1) \<Rightarrow> s1 | (Some e, s1) \<Rightarrow> packet_failure s1)"
  using assms has_key_member [of d "''name''" "PStr k"]
  by (simp add: on_packet_def getitem_def)

subsection \<open>The example handlers, written out\<close>

lemma fresh_simp:
  "fresh = \<lparr> client_address = PStr ''10.0.0.7'', timeout = PNone,
       priv_working = PBool False, priv_no_response_job = None,
       priv_problems = PList [], executors = PDict [], problems = [],
       latency = None, time_delta = None, load = PFloat (10 ^ 100),
       name = PNone, is_disabled = False, tier = PNone, batch_id = PNone,
       in_batch = False, priv_stop_ping = False, priv_ping_average = [],
       priv_time_delta = [], update_counter = [], judge = PNone,
       judge_address = PNone, priv_submission_cache_id = PNone,
       priv_submission_cache = [], out = [] \<rparr>"
  by (simp add: fresh_def init_def example_env_def)

lemma after_submit_42_simp:
  "after_submit_42 = fresh\<lparr>priv_working := PStr ''42'',
       priv_no_response_job :=
         Some \<lparr>interval = 20, target = Kill_if_no_response, started = False\<rparr>\<rparr>"
  by (simp add: after_submit_42_def submit_def get_related_submission_data_def Let_def)

subsection \<open>Dispatch\<close>

text \<open>
  C1. On a handler whose current submission is set, \<open>submit\<close> fails and hands no
  message to the transport. The failure is the AttributeError raised while the request
  is built from the absent metadata; \<open>submit\<close> has no test of the current submission,
  and the same holds on an idle handler.
\<close>

theorem submit_while_busy_fails_without_sending:
  assumes "working env s"
  shows "fst (submit ident problem language source s) = Some AttributeError
       \<and> sent_messages (out (snd (submit ident problem language source s)))
           = sent_messages (out s)"
  by (simp add: submit_def get_related_submission_data_def Let_def)

theorem submit_while_busy_witness:
  "working example_env after_submit_42
   \<and> fst (submit (PStr ''43'') (PStr ''aplusb'') (PStr ''PY3'') (PStr ''print(2)'')
            after_submit_42) = Some AttributeError
   \<and> sent_messages (out (snd (submit (PStr ''43'') (PStr ''aplusb'') (PStr ''PY3'')
            (PStr ''print(2)'') after_submit_42))) = sent_messages (out after_submit_42)"
proof -
  have busy: "working example_env after_submit_42"
    by (simp add: working_def after_submit_42_simp)
  show ?thesis
    using busy submit_while_busy_fails_without_sending [OF busy] by simp
qed

text \<open>
  C2. \<open>submit\<close> stores a timer of 20 seconds whose function is
  \<open>_kill_if_no_response\<close>, and leaves it unstarted; no run of inbound packets after
  the dispatch starts it. The deadline therefore never fires, with or without an
  acknowledgment, although the function, were it called, would log an error and close
  the connection.
\<close>

theorem submit_never_starts_the_timer:
  "priv_no_response_job (snd (submit ident problem language source s))
     = Some \<lparr>interval = 20, target = Kill_if_no_response, started = False\<rparr>
   \<and> timer_can_fire (on_packets env evs (snd (submit ident problem language source s)))
     = False
   \<and> out (kill_if_no_response s')
     = out s' @ [Log ERROR ''Judge failed to acknowledge submission: %s: %s''
                   [name s', priv_working s'], Closed]"
proof -
  have kill: "out (kill_if_no_response s')
     = out s' @ [Log ERROR ''Judge failed to acknowledge submission: %s: %s''
                   [name s', priv_working s'], Closed]"
    by (simp add: kill_if_no_response_def close_def emit_def)
  let ?s = "snd (submit ident problem language source s)"
  have job: "priv_no_response_job ?s
      = Some \<lparr>interval = 20, target = Kill_if_no_response, started = False\<rparr>"
    by (simp add: submit_def get_related_submission_data_def Let_def)
  have "dispatch_state (on_packets env evs ?s) = dispatch_state ?s" by simp
  then have "priv_no_response_job (on_packets env evs ?s) = priv_no_response_job ?s"
    by (simp add: dispatch_state_def)
  with job kill show ?thesis by (simp add: timer_can_fire_def)
qed

text \<open>
  C3, as the claim states it, fails on a fresh handler: \<open>submit('42', ...)\<close> raises
  AttributeError, not an error of the dispatch's own, and the handler then reports
  submission 42 as its current one.
\<close>

theorem submit_unavailable_counterexample:
  "fst (submit (PStr ''42'') (PStr ''aplusb'') (PStr ''PY3'') (PStr ''print(1)'') fresh)
     = Some AttributeError
   \<and> working example_env
       (snd (submit (PStr ''42'') (PStr ''aplusb'') (PStr ''PY3'') (PStr ''print(1)'') fresh))
   \<and> get_current_submission example_env
       (snd (submit (PStr ''42'') (PStr ''aplusb'') (PStr ''PY3'') (PStr ''print(1)'') fresh))
     = PStr ''42''"
  by (simp add: submit_def get_related_submission_data_def Let_def working_def
      get_current_submission_def)

text \<open>
  C3, amended. The metadata lookup yields nothing, \<open>submit\<close> fails with an
  AttributeError, and nothing reaches the worker: the trace of effects is the one
  before the call.
\<close>

theorem submit_without_metadata_fails_unsent:
  "get_related_submission_data ident s = None
   \<and> fst (submit ident problem language source s) = Some AttributeError
   \<and> out (snd (submit ident problem language source s)) = out s"
  by (simp add: submit_def get_related_submission_data_def Let_def)

text \<open>
  C10, as the claim states it, fails on a fresh handler: after \<open>submit(0, ...)\<close> no
  submission-request is among the messages sent; the call raised before \<open>send\<close>.
\<close>

theorem falsy_id_sends_nothing_counterexample:
  "sent_messages
     (out (snd (submit (PInt 0) (PStr ''aplusb'') (PStr ''PY3'') (PStr ''print(1)'') fresh)))
     = []
   \<and> fst (submit (PInt 0) (PStr ''aplusb'') (PStr ''PY3'') (PStr ''print(1)'') fresh)
     = Some AttributeError"
  by (simp add: submit_def get_related_submission_data_def Let_def fresh_simp)

text \<open>
  C10, amended. After \<open>submit\<close> with a falsy id the handler holds that id as its
  current submission and reports itself idle: \<open>working\<close> is false and
  \<open>get_current_submission()\<close> is \<open>None\<close>. No message was sent to the worker.
\<close>

theorem falsy_id_reports_idle:
  assumes "\<not> truthy env ident"
  shows "\<not> working env (snd (submit ident problem language source s))
       \<and> get_current_submission env (snd (submit ident problem language source s)) = PNone
       \<and> priv_working (snd (submit ident problem language source s)) = ident
       \<and> sent_messages (out (snd (submit ident problem language source s)))
           = sent_messages (out s)"
  using assms
  by (simp add: submit_def get_related_submission_data_def Let_def working_def
      get_current_submission_def)

theorem falsy_id_reports_idle_witness:
  "\<not> truthy example_env (PStr '''')
   \<and> \<not> working example_env
         (snd (submit (PStr '''') (PStr ''aplusb'') (PStr ''PY3'') (PStr ''print(1)'') fresh))
   \<and> get_current_submission example_env
         (snd (submit (PStr '''') (PStr ''aplusb'') (PStr ''PY3'') (PStr ''print(1)'') fresh))
       = PNone
   \<and> priv_working
         (snd (submit (PStr '''') (PStr ''aplusb'') (PStr ''PY3'') (PStr ''print(1)'') fresh))
       = PStr ''''
   \<and> sent_messages (out
         (snd (submit (PStr '''') (PStr ''aplusb'') (PStr ''PY3'') (PStr ''print(1)'') fresh)))
       = sent_messages (out fresh)"
proof -
  have falsy: "\<not> truthy example_env (PStr '''')" by simp
  show ?thesis
    using falsy falsy_id_reports_idle [OF falsy] by simp
qed

subsection \<open>The submission lifecycle\<close>

text \<open>
  C4, as the claim states it, fails after \<open>submit('42', ...)\<close> on a fresh handler: the
  grading-end packet for submission 42 leaves 42 as the current submission, and the
  handler still reports itself working.
\<close>

theorem grading_end_keeps_submission_counterexample:
  \<open>priv_working
     (on_packet example_env 0 ''{"name":"grading-end","submission-id":"42"}'' after_submit_42)
     = PStr ''42''
   \<and> working example_env
     (on_packet example_env 0 ''{"name":"grading-end","submission-id":"42"}'' after_submit_42)\<close>
proof -
  have \<open>dispatch_state
      (on_packet example_env 0 ''{"name":"grading-end","submission-id":"42"}''
         after_submit_42) = dispatch_state after_submit_42\<close>
    by simp
  then show ?thesis
    by (simp add: dispatch_state_def working_def after_submit_42_simp)
qed

text \<open>
  C4, amended. The current submission is whatever the last \<open>submit\<close> stored: \<open>submit\<close>
  stores the id, no run of inbound packets changes it, and the four terminal handlers
  (grading-end, internal-error, submission-terminated, compile-error) return without
  touching the handler.
\<close>

theorem current_submission_is_set_by_submit_only:
  "priv_working (snd (submit ident problem language source s)) = ident
   \<and> priv_working (on_packets env evs s) = priv_working s
   \<and> on_grading_end packet s = (None, s)
   \<and> on_internal_error packet s = (None, s)
   \<and> on_submission_terminated packet s = (None, s)
   \<and> on_compile_error packet s = (None, s)"
proof -
  have "dispatch_state (on_packets env evs s) = dispatch_state s" by simp
  then have "priv_working (on_packets env evs s) = priv_working s"
    by (simp add: dispatch_state_def)
  then show ?thesis
    by (simp add: submit_def get_related_submission_data_def Let_def on_grading_end_def
        on_internal_error_def on_submission_terminated_def on_compile_error_def)
qed

text \<open>
  C8, as the claim states it, fails after \<open>submit('42', ...)\<close> on a fresh handler: the
  acknowledgment of submission 42 leaves the handler exactly as it was, the stored
  timer included, so nothing records that the request was acknowledged.
\<close>

theorem acknowledgment_counterexample:
  \<open>on_packet example_env 0 ''{"name":"submission-acknowledged","submission-id":"42"}''
     after_submit_42 = after_submit_42
   \<and> priv_no_response_job
       (on_packet example_env 0 ''{"name":"submission-acknowledged","submission-id":"42"}''
          after_submit_42)
     = Some \<lparr>interval = 20, target = Kill_if_no_response, started = False\<rparr>\<close>
  by (simp add: on_packet_def example_env_def example_texts_def getitem_def handlers_def
      on_submission_acknowledged_def after_submit_42_simp)

text \<open>
  C8, amended. A submission-acknowledged message leaves every attribute of the handler
  as it was and has no effect outside it: the timer stored by \<open>submit\<close> is neither
  cancelled nor cleared, and no lifecycle state is kept.
\<close>

theorem acknowledgment_changes_nothing:
  assumes "json_loads env data = Inr (PDict d)"
    and "map_of d ''name'' = Some (PStr ''submission-acknowledged'')"
  shows "on_packet env now data s = s"
  using on_packet_named [OF assms]
  by (simp add: handlers_def on_submission_acknowledged_def)

theorem acknowledgment_changes_nothing_witness:
  \<open>json_loads example_env ''{"name":"submission-acknowledged","submission-id":"42"}''
     = Inr (PDict [(''name'', PStr ''submission-acknowledged''),
                   (''submission-id'', PStr ''42'')])
   \<and> map_of [(''name'', PStr ''submission-acknowledged''),
              (''submission-id'', PStr ''42'' :: rat py)] ''name''
     = Some (PStr ''submission-acknowledged'')
   \<and> on_packet example_env 7 ''{"name":"submission-acknowledged","submission-id":"42"}''
       after_submit_42 = after_submit_42\<close>
proof -
  have dec: \<open>json_loads example_env
        ''{"name":"submission-acknowledged","submission-id":"42"}''
      = Inr (PDict [(''name'', PStr ''submission-acknowledged''),
                    (''submission-id'', PStr ''42'')])\<close>
    by (simp add: example_env_def example_texts_def)
  have nm: "map_of [(''name'', PStr ''submission-acknowledged''),
              (''submission-id'', PStr ''42'' :: rat py)] ''name''
      = Some (PStr ''submission-acknowledged'')"
    by simp
  show ?thesis
    using dec nm acknowledgment_changes_nothing [OF dec nm, of 7 after_submit_42] by simp
qed

subsection \<open>Test-case results\<close>

text \<open>
  C9, as the claim states it, fails after \<open>submit('42', ...)\<close> on a fresh handler: the
  one test-case result of the submission, which is its final one, produces no effect at
  all, so it is not forwarded.
\<close>

theorem test_case_counterexample:
  \<open>out (on_packet example_env 0
          ''{"name":"test-case-status","submission-id":"42","position":1,"status":0}''
          after_submit_42) = []
   \<and> on_packet example_env 0
          ''{"name":"test-case-status","submission-id":"42","position":1,"status":0}''
          after_submit_42 = after_submit_42\<close>
  by (simp add: on_packet_def example_env_def example_texts_def getitem_def handlers_def
      on_test_case_def after_submit_42_simp fresh_simp)

text \<open>
  C9, amended. No test-case-status message is forwarded anywhere: a run of such
  messages, however long and however fast, leaves the handler as it was and has no
  effect outside it. The bound of 5 per window holds for that reason alone; the final
  result is withheld like every other; \<open>UPDATE_RATE_LIMIT\<close> and \<open>update_counter\<close> are
  never read.
\<close>

theorem test_case_status_forwards_nothing:
  assumes "\<forall>(now, data) \<in> set evs. \<exists>d. json_loads env data = Inr (PDict d)
              \<and> map_of d ''name'' = Some (PStr ''test-case-status'')"
  shows "on_packets env evs s = s \<and> UPDATE_RATE_LIMIT = 5"
  using assms
proof (induction evs)
  case Nil
  then show ?case by (simp add: UPDATE_RATE_LIMIT_def)
next
  case (Cons ev evs)
  obtain now data where ev: "ev = (now, data)" by (cases ev)
  from Cons.prems ev obtain d where d: "json_loads env data = Inr (PDict d)"
      "map_of d ''name'' = Some (PStr ''test-case-status'')"
    by auto
  have "on_packet env now data s = s"
    using on_packet_named [OF d] by (simp add: handlers_def on_test_case_def)
  with Cons ev show ?case by simp
qed

theorem test_case_status_forwards_nothing_witness:
  \<open>on_packets example_env
        [(1, ''{"name":"test-case-status","submission-id":"42","position":1,"status":0}''),
         (2, ''{"name":"test-case-status","submission-id":"42","position":1,"status":0}'')]
        after_submit_42 = after_submit_42
   \<and> UPDATE_RATE_LIMIT = 5\<close>
proof -
  have h: \<open>\<forall>(now, data) \<in> set
        [(1 :: rat, ''{"name":"test-case-status","submission-id":"42","position":1,"status":0}''),
         (2, ''{"name":"test-case-status","submission-id":"42","position":1,"status":0}'')].
      \<exists>d. json_loads example_env data = Inr (PDict d)
          \<and> map_of d ''name'' = Some (PStr ''test-case-status'')\<close>
    by (simp add: example_env_def example_texts_def)
  show ?thesis
    using test_case_status_forwards_nothing [OF h, of after_submit_42] by simp
qed

subsection \<open>Handshake\<close>

lemma sent_messages_append:
  "sent_messages (xs @ ys) = sent_messages xs @ sent_messages ys"
  by (induction xs rule: sent_messages.induct) simp_all

text \<open>
  C6. A handshake without \<open>id\<close>, without \<open>key\<close>, or with a credential that the check
  rejects is answered by closing the connection: the call returns normally, nothing is
  sent, the last effect is the close (after a warning, when a field is missing), and
  no attribute of the handler changes. Stated for any credential check, since
  \<open>_authenticate\<close> itself rejects nothing.
\<close>

theorem rejected_handshake_closes_silently:
  assumes "map_of packet ''id'' = None \<or> map_of packet ''key'' = None
           \<or> (\<exists>ident key. map_of packet ''id'' = Some ident
                 \<and> map_of packet ''key'' = Some key \<and> \<not> auth ident key)"
  shows "fst (on_handshake_with auth env packet s) = None
       \<and> (out (snd (on_handshake_with auth env packet s)) = out s @ [Closed]
          \<or> out (snd (on_handshake_with auth env packet s))
              = out s @ [Log WARNING ''Malformed handshake: %s'' [client_address s], Closed])
       \<and> sent_messages (out (snd (on_handshake_with auth env packet s)))
           = sent_messages (out s)
       \<and> (snd (on_handshake_with auth env packet s))\<lparr>out := out s\<rparr> = s"
proof -
  have shape: "on_handshake_with auth env packet s = (None, close s)
      \<or> on_handshake_with auth env packet s
          = (None, close (emit (Log WARNING ''Malformed handshake: %s'' [client_address s]) s))"
    using assms
    by (auto simp: on_handshake_with_def split: option.splits)
  then show ?thesis
    by (auto simp: close_def emit_def sent_messages_append)
qed

theorem rejected_handshake_witness:
  "fst (on_handshake_with authenticate example_env
          [(''name'', PStr ''handshake''), (''id'', PStr ''judge1''),
           (''problems'', PList []), (''executors'', PDict [])] fresh) = None
   \<and> out (snd (on_handshake_with authenticate example_env
          [(''name'', PStr ''handshake''), (''id'', PStr ''judge1''),
           (''problems'', PList []), (''executors'', PDict [])] fresh))
       = [Log WARNING ''Malformed handshake: %s'' [PStr ''10.0.0.7''], Closed]
   \<and> fst (on_handshake_with (\<lambda>ident key. key = PStr ''secret'') example_env
          [(''name'', PStr ''handshake''), (''id'', PStr ''judge1''),
           (''key'', PStr ''guess''), (''problems'', PList []), (''executors'', PDict [])]
          fresh) = None
   \<and> out (snd (on_handshake_with (\<lambda>ident key. key = PStr ''secret'') example_env
          [(''name'', PStr ''handshake''), (''id'', PStr ''judge1''),
           (''key'', PStr ''guess''), (''problems'', PList []), (''executors'', PDict [])]
          fresh))
       = [Closed]"
proof -
  let ?p1 = "[(''name'', PStr ''handshake''), (''id'', PStr ''judge1''),
       (''problems'', PList []), (''executors'', PDict [])] :: (string \<times> rat py) list"
  let ?p2 = "[(''name'', PStr ''handshake''), (''id'', PStr ''judge1''),
       (''key'', PStr ''guess''),
       (''problems'', PList []), (''executors'', PDict [])] :: (string \<times> rat py) list"
  let ?auth = "\<lambda>(ident :: rat py) (key :: rat py). key = PStr ''secret''"
  have h1: "map_of ?p1 ''id'' = None \<or> map_of ?p1 ''key'' = None
           \<or> (\<exists>ident key. map_of ?p1 ''id'' = Some ident
                 \<and> map_of ?p1 ''key'' = Some key \<and> \<not> authenticate ident key)"
    by simp
  have h2: "map_of ?p2 ''id'' = None \<or> map_of ?p2 ''key'' = None
           \<or> (\<exists>ident key. map_of ?p2 ''id'' = Some ident
                 \<and> map_of ?p2 ''key'' = Some key \<and> \<not> ?auth ident key)"
    by simp
  have warned: "out (snd (on_handshake_with authenticate example_env ?p1 fresh)) \<noteq> [Closed]"
    by (simp add: on_handshake_with_def close_def emit_def fresh_simp)
  have silent: "out (snd (on_handshake_with ?auth example_env ?p2 fresh)) \<noteq>
       [Log WARNING ''Malformed handshake: %s'' [PStr ''10.0.0.7''], Closed]"
    by (simp add: on_handshake_with_def close_def emit_def fresh_simp)
  have o: "out fresh = []" "client_address fresh = PStr ''10.0.0.7''"
    by (simp_all add: fresh_simp)
  have r1: "fst (on_handshake_with authenticate example_env ?p1 fresh) = None
     \<and> out (snd (on_handshake_with authenticate example_env ?p1 fresh))
       = [Log WARNING ''Malformed handshake: %s'' [PStr ''10.0.0.7''], Closed]"
    using rejected_handshake_closes_silently [OF h1, of example_env fresh] warned o
    by simp
  have r2: "fst (on_handshake_with ?auth example_env ?p2 fresh) = None
     \<and> out (snd (on_handshake_with ?auth example_env ?p2 fresh)) = [Closed]"
    using rejected_handshake_closes_silently [OF h2, of example_env fresh] silent o
    by simp
  from r1 r2 show ?thesis by simp
qed

subsection \<open>Packets that select no handler\<close>

lemma on_malformed_eq:
  "on_malformed v s =
     s\<lparr>out := out s @
        [Log ERROR ''%s: Malformed packet: %s'' [name s, v],
         JsonLog EXCEPTION
           (make_json_log None (priv_working s) [(''info'', PStr ''malformed json packet'')] s)]\<rparr>"
  by (simp add: on_malformed_def emit_def make_json_log_def Let_def)

lemma packet_failure_eq:
  "packet_failure s =
     s\<lparr>out := out s @
        [Log EXCEPTION ''Error in packet handling (Judge-side): %s'' [name s],
         JsonLog EXCEPTION
           (make_json_log None (priv_working s)
              [(''info'', PStr ''packet processing exception'')] s)]\<rparr>"
  by (simp add: packet_failure_def packet_exception_def emit_def make_json_log_def Let_def)

lemma not_dispatchable_route:
  assumes "not_dispatchable env data"
  shows "on_packet env now data s =
           (case malformed_argument env data of
              Some a \<Rightarrow> on_malformed a s
            | None \<Rightarrow> packet_failure s)"
proof (cases "json_loads env data")
  case (Inl e)
  then show ?thesis
    by (simp add: on_packet_def malformed_argument_def)
next
  case (Inr v)
  show ?thesis
  proof (cases v)
    case (PDict d)
    show ?thesis
    proof (cases "map_of d ''name''")
      case None
      then have "''name'' \<notin> fst ` set d"
        by (simp add: map_of_eq_None_iff)
      with Inr PDict None show ?thesis
        by (simp add: on_packet_def malformed_argument_def)
    next
      case (Some key)
      then have mem: "''name'' \<in> fst ` set d"
        by (rule has_key_member)
      from assms Inr PDict Some
      have unknown: "\<And>k. key = PStr k \<Longrightarrow> map_of handlers k = None"
        by (simp add: not_dispatchable_def)
      from Inr PDict Some mem unknown show ?thesis
        by (cases key) (simp_all add: on_packet_def malformed_argument_def getitem_def)
    qed
  qed (use Inr in \<open>simp_all add: on_packet_def malformed_argument_def\<close>)
qed

text \<open>
  C5, as the claim states it, fails while submission 42 is current: the text \<open>5\<close>
  decodes to a number, which is not a well-formed object, and the packet is not handed
  to the malformed-message handler. It ends in the outer exception handler, whose two
  records differ from the ones the malformed-message handler writes.
\<close>

theorem number_packet_counterexample:
  "on_packet example_env 0 ''5'' after_submit_42 = packet_failure after_submit_42
   \<and> out (on_packet example_env 0 ''5'' after_submit_42)
     = [Log EXCEPTION ''Error in packet handling (Judge-side): %s'' [PNone],
        JsonLog EXCEPTION
          (PDict [(''judge'', PNone), (''address'', PNone), (''submission'', PStr ''42''),
                  (''info'', PStr ''packet processing exception'')])]
   \<and> out (on_malformed (PInt 5) after_submit_42)
     = [Log ERROR ''%s: Malformed packet: %s'' [PNone, PInt 5],
        JsonLog EXCEPTION
          (PDict [(''judge'', PNone), (''address'', PNone), (''submission'', PStr ''42''),
                  (''info'', PStr ''malformed json packet'')])]"
  by (simp add: on_packet_def example_env_def example_texts_def packet_failure_eq
      on_malformed_eq make_json_log_def after_submit_42_simp fresh_simp)

text \<open>
  C5, amended. A packet that does not decode, that decodes to something else than an
  object, that lacks \<open>name\<close>, or whose name is unknown, costs the session nothing:
  no attribute changes, the connection is not closed, and exactly two records are
  written, an error on the logger and an entry on the audit logger. The
  malformed-message handler writes them when decoding raised a ValueError, when the
  decoded dict lacks \<open>name\<close> or has an unknown hashable name, and when the decoded list
  or string does not contain \<open>name\<close>; in the other cases the outer exception handler
  writes them.
\<close>

theorem undispatchable_packet_is_logged_and_survived:
  assumes "not_dispatchable env data"
  shows "on_packet env now data s =
           (case malformed_argument env data of
              Some a \<Rightarrow> on_malformed a s
            | None \<Rightarrow> packet_failure s)
       \<and> (\<exists>lv fmt args audit.
             on_packet env now data s
               = s\<lparr>out := out s @ [Log lv fmt args, JsonLog EXCEPTION audit]\<rparr>)"
proof -
  have route: "on_packet env now data s =
           (case malformed_argument env data of
              Some a \<Rightarrow> on_malformed a s
            | None \<Rightarrow> packet_failure s)"
    using assms by (rule not_dispatchable_route)
  have "\<exists>lv fmt args audit.
          on_packet env now data s
            = s\<lparr>out := out s @ [Log lv fmt args, JsonLog EXCEPTION audit]\<rparr>"
  proof (cases "malformed_argument env data")
    case None
    with route have "on_packet env now data s = packet_failure s" by simp
    then show ?thesis by (subst (asm) packet_failure_eq) blast
  next
    case (Some a)
    with route have "on_packet env now data s = on_malformed a s" by simp
    then show ?thesis by (subst (asm) on_malformed_eq) blast
  qed
  with route show ?thesis by simp
qed

theorem undispatchable_packet_witness:
  \<open>on_packet example_env 0 ''{"name":"no-such-message"}'' after_submit_42
     = on_malformed (PDict [(''name'', PStr ''no-such-message'')]) after_submit_42
   \<and> out (on_packet example_env 0 ''{"name":"no-such-message"}'' after_submit_42)
     = [Log ERROR ''%s: Malformed packet: %s''
          [PNone, PDict [(''name'', PStr ''no-such-message'')]],
        JsonLog EXCEPTION
          (PDict [(''judge'', PNone), (''address'', PNone), (''submission'', PStr ''42''),
                  (''info'', PStr ''malformed json packet'')])]
   \<and> priv_working (on_packet example_env 0 ''{"name":"no-such-message"}'' after_submit_42)
     = PStr ''42''\<close>
proof -
  have h: \<open>not_dispatchable example_env ''{"name":"no-such-message"}''\<close>
    by (simp add: not_dispatchable_def example_env_def example_texts_def handlers_def)
  have arg: \<open>malformed_argument example_env ''{"name":"no-such-message"}''
      = Some (PDict [(''name'', PStr ''no-such-message'')])\<close>
    by (simp add: malformed_argument_def example_env_def example_texts_def)
  have route: \<open>on_packet example_env 0 ''{"name":"no-such-message"}'' after_submit_42
     = on_malformed (PDict [(''name'', PStr ''no-such-message'')]) after_submit_42\<close>
    using undispatchable_packet_is_logged_and_survived [OF h, of 0 after_submit_42] arg
    by simp
  show ?thesis
    unfolding route
    by (simp add: on_malformed_eq make_json_log_def after_submit_42_simp fresh_simp)
qed

subsection \<open>Ping responses\<close>

lemma deque_append_newest: "deque_append 6 xs x = newest 6 (xs @ [x])"
  by (simp add: deque_append_def newest_def)

lemma newest_newest_append: "newest n (newest n xs @ ys) = newest n (xs @ ys)"
proof (cases "length xs \<le> n")
  case True
  then show ?thesis by (simp add: newest_def)
next
  case False
  then have "length xs + length ys - n = (length xs - n) + length ys" by simp
  moreover have "drop (length xs - n + length ys) (xs @ ys)
      = drop (length ys) (drop (length xs - n) xs @ ys)"
    by (simp add: add.commute)
  ultimately show ?thesis using False by (simp add: newest_def)
qed

lemma length_newest: "length (newest n xs) \<le> n"
  by (simp add: newest_def)

lemma newest_id: "length xs \<le> n \<Longrightarrow> newest n xs = xs"
  by (simp add: newest_def)

lemma newest_nonempty: "0 < n \<Longrightarrow> newest n (xs @ [x]) \<noteq> []"
  by (simp add: newest_def)

text \<open>The handler's conversion accepts every number, with the float it stands for.\<close>

lemma number_as_float_to_float:
  "number_as_float env v x \<Longrightarrow> to_float env v = Inr x"
  by (cases v) (auto simp: number_as_float_def split: option.splits)

lemma carries_timesD:
  assumes "carries_times env packet w t"
  shows "\<exists>wv tv. getitem packet ''when'' = Inr wv \<and> to_float env wv = Inr w
          \<and> getitem packet ''time'' = Inr tv \<and> to_float env tv = Inr t"
  using assms
  by (auto simp: carries_times_def getitem_def number_as_float_to_float
      split: option.splits)

text \<open>One ping response with the two times: both windows take their sample and both
  estimates are recomputed from the windows as they then are. Only the reading of
  \<open>load\<close>, which comes last, can still raise.\<close>

lemma on_ping_response_ok:
  assumes "carries_times env packet w t"
  shows "priv_ping_average (snd (on_ping_response env end packet s))
           = newest 6 (priv_ping_average s @ [fsub env end w])"
    and "priv_time_delta (snd (on_ping_response env end packet s))
           = newest 6 (priv_time_delta s @ [fsub env (fdiv_int env (fadd env end w) 2) t])"
    and "latency (snd (on_ping_response env end packet s))
           = Some (fdiv_int env
               (fsum env (priv_ping_average (snd (on_ping_response env end packet s))))
               (int (length (priv_ping_average (snd (on_ping_response env end packet s))))))"
    and "time_delta (snd (on_ping_response env end packet s))
           = Some (fdiv_int env
               (fsum env (priv_time_delta (snd (on_ping_response env end packet s))))
               (int (length (priv_time_delta (snd (on_ping_response env end packet s))))))"
    and "fst (on_ping_response env end packet s) = None
         \<or> (fst (on_ping_response env end packet s) = Some KeyError
            \<and> map_of packet ''load'' = None)"
proof -
  from carries_timesD [OF assms] obtain wv tv where
    f: "getitem packet ''when'' = Inr wv" "to_float env wv = Inr w"
       "getitem packet ''time'' = Inr tv" "to_float env tv = Inr t"
    by blast
  have ne: "newest 6 (xs @ [x]) \<noteq> []" for xs :: "'a list" and x
    by (rule newest_nonempty) simp
  let ?A = "newest 6 (priv_ping_average s @ [fsub env end w])"
  let ?D = "newest 6 (priv_time_delta s @ [fsub env (fdiv_int env (fadd env end w) 2) t])"
  let ?s4 = "s\<lparr>priv_ping_average := ?A, priv_time_delta := ?D,
               latency := Some (fdiv_int env (fsum env ?A) (int (length ?A))),
               time_delta := Some (fdiv_int env (fsum env ?D) (int (length ?D)))\<rparr>"
  have run: "on_ping_response env end packet s =
      (case getitem packet ''load'' of
         Inl e \<Rightarrow> (Some e, ?s4)
       | Inr ld \<Rightarrow> (None, ?s4\<lparr>load := ld\<rparr>))"
    by (simp add: on_ping_response_def f Let_def mean_def window_mean_def
        deque_append_newest ne split: sum.splits)
  show "priv_ping_average (snd (on_ping_response env end packet s)) = ?A"
    by (simp add: run split: sum.splits)
  show "priv_time_delta (snd (on_ping_response env end packet s)) = ?D"
    by (simp add: run split: sum.splits)
  show "latency (snd (on_ping_response env end packet s))
           = Some (fdiv_int env
               (fsum env (priv_ping_average (snd (on_ping_response env end packet s))))
               (int (length (priv_ping_average (snd (on_ping_response env end packet s))))))"
    by (simp add: run split: sum.splits)
  show "time_delta (snd (on_ping_response env end packet s))
           = Some (fdiv_int env
               (fsum env (priv_time_delta (snd (on_ping_response env end packet s))))
               (int (length (priv_time_delta (snd (on_ping_response env end packet s))))))"
    by (simp add: run split: sum.splits)
  show "fst (on_ping_response env end packet s) = None
         \<or> (fst (on_ping_response env end packet s) = Some KeyError
            \<and> map_of packet ''load'' = None)"
    by (simp add: run getitem_def split: sum.splits option.splits)
qed

lemma on_ping_responses_append:
  "on_ping_responses env (evs @ evs') s = on_ping_responses env evs' (on_ping_responses env evs s)"
  by (induction evs arbitrary: s) auto

text \<open>The windows after a run of such ping responses. An observation is the clock
  reading at arrival, the packet, and the two floats its times stand for.\<close>

lemma ping_average_window:
  assumes "\<forall>(end, packet, w, t) \<in> set obs. carries_times env packet w t"
    and "length (priv_ping_average s) \<le> 6"
  shows "priv_ping_average
           (on_ping_responses env (map (\<lambda>(end, packet, w, t). (end, packet)) obs) s)
         = newest 6 (priv_ping_average s @ map (\<lambda>(end, packet, w, t). fsub env end w) obs)"
  using assms
proof (induction obs arbitrary: s)
  case Nil
  then show ?case by (simp add: newest_id)
next
  case (Cons ob obs)
  obtain e p w t where ob: "ob = (e, p, w, t)" by (cases ob)
  from Cons.prems(1) ob have pf: "carries_times env p w t" by simp
  from Cons.prems(1)
  have rest: "\<forall>(end, packet, w, t) \<in> set obs. carries_times env packet w t"
    by auto
  let ?s1 = "snd (on_ping_response env e p s)"
  have win: "priv_ping_average ?s1 = newest 6 (priv_ping_average s @ [fsub env e w])"
    by (rule on_ping_response_ok(1) [OF pf])
  then have "length (priv_ping_average ?s1) \<le> 6"
    by (simp add: length_newest)
  from Cons.IH [OF rest this] win ob show ?case
    by (simp add: newest_newest_append)
qed

lemma time_delta_window:
  assumes "\<forall>(end, packet, w, t) \<in> set obs. carries_times env packet w t"
    and "length (priv_time_delta s) \<le> 6"
  shows "priv_time_delta
           (on_ping_responses env (map (\<lambda>(end, packet, w, t). (end, packet)) obs) s)
         = newest 6 (priv_time_delta s
             @ map (\<lambda>(end, packet, w, t). fsub env (fdiv_int env (fadd env end w) 2) t) obs)"
  using assms
proof (induction obs arbitrary: s)
  case Nil
  then show ?case by (simp add: newest_id)
next
  case (Cons ob obs)
  obtain e p w t where ob: "ob = (e, p, w, t)" by (cases ob)
  from Cons.prems(1) ob have pf: "carries_times env p w t" by simp
  from Cons.prems(1)
  have rest: "\<forall>(end, packet, w, t) \<in> set obs. carries_times env packet w t"
    by auto
  let ?s1 = "snd (on_ping_response env e p s)"
  have win: "priv_time_delta ?s1
      = newest 6 (priv_time_delta s @ [fsub env (fdiv_int env (fadd env e w) 2) t])"
    by (rule on_ping_response_ok(2) [OF pf])
  then have "length (priv_time_delta ?s1) \<le> 6"
    by (simp add: length_newest)
  from Cons.IH [OF rest this] win ob show ?case
    by (simp add: newest_newest_append)
qed

text \<open>After a non-empty run the estimates are \<open>sum / len\<close> of the windows as they are.\<close>

lemma ping_estimates:
  assumes "\<forall>(end, packet, w, t) \<in> set obs. carries_times env packet w t"
    and "obs \<noteq> []"
  shows "latency (on_ping_responses env (map (\<lambda>(end, packet, w, t). (end, packet)) obs) s)
         = Some (fdiv_int env
             (fsum env (priv_ping_average
                (on_ping_responses env (map (\<lambda>(end, packet, w, t). (end, packet)) obs) s)))
             (int (length (priv_ping_average
                (on_ping_responses env (map (\<lambda>(end, packet, w, t). (end, packet)) obs) s)))))"
    and "time_delta (on_ping_responses env (map (\<lambda>(end, packet, w, t). (end, packet)) obs) s)
         = Some (fdiv_int env
             (fsum env (priv_time_delta
                (on_ping_responses env (map (\<lambda>(end, packet, w, t). (end, packet)) obs) s)))
             (int (length (priv_time_delta
                (on_ping_responses env (map (\<lambda>(end, packet, w, t). (end, packet)) obs) s)))))"
proof -
  from assms(2) obtain obs' ob where split: "obs = obs' @ [ob]"
    by (cases obs rule: rev_cases) auto
  obtain e p w t where ob: "ob = (e, p, w, t)" by (cases ob)
  from assms(1) split ob have pf: "carries_times env p w t" by simp
  let ?s0 = "on_ping_responses env (map (\<lambda>(end, packet, w, t). (end, packet)) obs') s"
  have run: "on_ping_responses env (map (\<lambda>(end, packet, w, t). (end, packet)) obs) s
      = snd (on_ping_response env e p ?s0)"
    by (simp add: split ob on_ping_responses_append)
  show "latency (on_ping_responses env (map (\<lambda>(end, packet, w, t). (end, packet)) obs) s)
         = Some (fdiv_int env
             (fsum env (priv_ping_average
                (on_ping_responses env (map (\<lambda>(end, packet, w, t). (end, packet)) obs) s)))
             (int (length (priv_ping_average
                (on_ping_responses env (map (\<lambda>(end, packet, w, t). (end, packet)) obs) s)))))"
    unfolding run by (rule on_ping_response_ok(3) [OF pf])
  show "time_delta (on_ping_responses env (map (\<lambda>(end, packet, w, t). (end, packet)) obs) s)
         = Some (fdiv_int env
             (fsum env (priv_time_delta
                (on_ping_responses env (map (\<lambda>(end, packet, w, t). (end, packet)) obs) s)))
             (int (length (priv_time_delta
                (on_ping_responses env (map (\<lambda>(end, packet, w, t). (end, packet)) obs) s)))))"
    unfolding run by (rule on_ping_response_ok(4) [OF pf])
qed

text \<open>Such a response with a \<open>load\<close>, arriving as a packet, is handled by
  \<open>on_ping_response\<close> with the clock reading of its arrival, and nothing else happens
  to the handler.\<close>

lemma on_packet_ping_response:
  assumes "json_loads env data = Inr (PDict packet)"
    and "map_of packet ''name'' = Some (PStr ''ping-response'')"
    and "carries_times env packet w t"
    and "map_of packet ''load'' = Some ld"
  shows "on_packet env now data s = snd (on_ping_response env now packet s)"
proof -
  have "fst (on_ping_response env now packet s) = None"
    using on_ping_response_ok(5) [OF assms(3), of now s] assms(4) by simp
  then show ?thesis
    using on_packet_named [OF assms(1) assms(2), of now s]
    by (cases "on_ping_response env now packet s") (simp add: handlers_def)
qed

text \<open>
  C7, as the claim states it, fails on a ping response that lacks \<open>time\<close>, arriving
  at 230 after one well-formed response: the latency window takes the sample 30 and
  the call then raises KeyError, so the clock-offset window gets no sample and the
  latency estimate stays 10, which is not the mean 20 of the window as it stands.
\<close>

theorem ping_without_time_counterexample:
  "fst (on_ping_response example_env 230 ping_without_time after_one_ping) = Some KeyError
   \<and> priv_ping_average (snd (on_ping_response example_env 230 ping_without_time after_one_ping))
       = [10, 30]
   \<and> priv_time_delta (snd (on_ping_response example_env 230 ping_without_time after_one_ping))
       = [1]
   \<and> latency (snd (on_ping_response example_env 230 ping_without_time after_one_ping))
       = Some 10
   \<and> fdiv_int example_env (fsum example_env [10, 30]) (int (length [10 :: rat, 30])) = 20"
  by (simp add: on_ping_response_def ping_without_time_def after_one_ping_def
      ping_response_packet_def getitem_def deque_append_def mean_def window_mean_def
      Let_def example_env_def fresh_simp)

text \<open>
  C7, amended. Over any run of ping responses that each carry \<open>when\<close> and \<open>time\<close> as
  numbers, starting from windows within their capacity: each response adds the sample
  \<open>end - when\<close> to the latency window and the sample \<open>(end + when) / 2 - time\<close> to the
  clock-offset window; each window holds the newest six samples, oldest first, so at
  most six; and after at least one response each estimate is the sum of its window
  divided by the number of samples in it.
\<close>

theorem ping_responses_fill_the_windows:
  assumes "\<forall>(end, packet, w, t) \<in> set obs. carries_times env packet w t"
    and "length (priv_ping_average s) \<le> 6"
    and "length (priv_time_delta s) \<le> 6"
  shows "let s' = on_ping_responses env (map (\<lambda>(end, packet, w, t). (end, packet)) obs) s in
           priv_ping_average s'
             = newest 6 (priv_ping_average s @ map (\<lambda>(end, packet, w, t). fsub env end w) obs)
         \<and> priv_time_delta s'
             = newest 6 (priv_time_delta s
                 @ map (\<lambda>(end, packet, w, t).
                          fsub env (fdiv_int env (fadd env end w) 2) t) obs)
         \<and> length (priv_ping_average s') \<le> 6
         \<and> length (priv_time_delta s') \<le> 6
         \<and> (obs \<noteq> [] \<longrightarrow>
               latency s' = Some (fdiv_int env (fsum env (priv_ping_average s'))
                                    (int (length (priv_ping_average s'))))
             \<and> time_delta s' = Some (fdiv_int env (fsum env (priv_time_delta s'))
                                    (int (length (priv_time_delta s')))))"
proof -
  let ?s' = "on_ping_responses env (map (\<lambda>(end, packet, w, t). (end, packet)) obs) s"
  have a: "priv_ping_average ?s'
      = newest 6 (priv_ping_average s @ map (\<lambda>(end, packet, w, t). fsub env end w) obs)"
    by (rule ping_average_window [OF assms(1) assms(2)])
  have d: "priv_time_delta ?s'
      = newest 6 (priv_time_delta s
          @ map (\<lambda>(end, packet, w, t). fsub env (fdiv_int env (fadd env end w) 2) t) obs)"
    by (rule time_delta_window [OF assms(1) assms(3)])
  have la: "length (priv_ping_average ?s') \<le> 6"
    unfolding a by (rule length_newest)
  have ld: "length (priv_time_delta ?s') \<le> 6"
    unfolding d by (rule length_newest)
  have est: "obs \<noteq> [] \<longrightarrow>
               latency ?s' = Some (fdiv_int env (fsum env (priv_ping_average ?s'))
                                    (int (length (priv_ping_average ?s'))))
             \<and> time_delta ?s' = Some (fdiv_int env (fsum env (priv_time_delta ?s'))
                                    (int (length (priv_time_delta ?s'))))"
    using ping_estimates [OF assms(1)] by blast
  from a d la ld est show ?thesis
    unfolding Let_def by blast
qed

theorem ping_responses_witness:
  "priv_ping_average
     (on_ping_responses example_env
        (map (\<lambda>(end, packet, w, t). (end, packet)) one_observation) fresh) = [10]
   \<and> priv_time_delta
     (on_ping_responses example_env
        (map (\<lambda>(end, packet, w, t). (end, packet)) one_observation) fresh) = [1]
   \<and> latency
     (on_ping_responses example_env
        (map (\<lambda>(end, packet, w, t). (end, packet)) one_observation) fresh) = Some 10
   \<and> time_delta
     (on_ping_responses example_env
        (map (\<lambda>(end, packet, w, t). (end, packet)) one_observation) fresh) = Some 1
   \<and> priv_ping_average
     (on_ping_responses example_env
        (map (\<lambda>(end, packet, w, t). (end, packet)) seven_observations) fresh)
     = [20, 30, 40, 50, 60, 70]
   \<and> priv_time_delta
     (on_ping_responses example_env
        (map (\<lambda>(end, packet, w, t). (end, packet)) seven_observations) fresh)
     = [2, 3, 4, 5, 6, 7]
   \<and> latency
     (on_ping_responses example_env
        (map (\<lambda>(end, packet, w, t). (end, packet)) seven_observations) fresh)
     = Some 45
   \<and> time_delta
     (on_ping_responses example_env
        (map (\<lambda>(end, packet, w, t). (end, packet)) seven_observations) fresh)
     = Some (9 / 2)"
proof -
  let ?s1 = "on_ping_responses example_env
        (map (\<lambda>(end, packet, w, t). (end, packet)) one_observation) fresh"
  let ?s7 = "on_ping_responses example_env
        (map (\<lambda>(end, packet, w, t). (end, packet)) seven_observations) fresh"
  have wf1: "\<forall>(end, packet, w, t) \<in> set one_observation.
              carries_times example_env packet w t"
    by (simp add: one_observation_def carries_times_def number_as_float_def example_env_def)
  have wf7: "\<forall>(end, packet, w, t) \<in> set seven_observations.
              carries_times example_env packet w t"
    by (simp add: seven_observations_def carries_times_def number_as_float_def
        ping_response_packet_def)
  have la: "length (priv_ping_average fresh) \<le> 6"
    and ld: "length (priv_time_delta fresh) \<le> 6"
    by (simp_all add: fresh_simp)
  have ne1: "one_observation \<noteq> []"
    by (simp add: one_observation_def)
  have ne7: "seven_observations \<noteq> []"
    by (simp add: seven_observations_def)
  note one = ping_responses_fill_the_windows [OF wf1 la ld, unfolded Let_def]
  note seven = ping_responses_fill_the_windows [OF wf7 la ld, unfolded Let_def]
  have lat1: "newest 6 (priv_ping_average fresh
        @ map (\<lambda>(end, packet, w, t). fsub example_env end w) one_observation) = [10]"
    by (simp add: newest_def one_observation_def fresh_simp example_env_def)
  have off1: "newest 6 (priv_time_delta fresh
        @ map (\<lambda>(end, packet, w, t).
                 fsub example_env (fdiv_int example_env (fadd example_env end w) 2) t)
            one_observation) = [1]"
    by (simp add: newest_def one_observation_def fresh_simp example_env_def)
  have lat7: "newest 6 (priv_ping_average fresh
        @ map (\<lambda>(end, packet, w, t). fsub example_env end w) seven_observations)
      = [20, 30, 40, 50, 60, 70]"
    by (simp add: newest_def seven_observations_def fresh_simp example_env_def)
  have off7: "newest 6 (priv_time_delta fresh
        @ map (\<lambda>(end, packet, w, t).
                 fsub example_env (fdiv_int example_env (fadd example_env end w) 2) t)
            seven_observations)
      = [2, 3, 4, 5, 6, 7]"
    by (simp add: newest_def seven_observations_def fresh_simp example_env_def)
  have a1: "priv_ping_average ?s1 = [10]"
    using one lat1 by simp
  have d1: "priv_time_delta ?s1 = [1]"
    using one off1 by simp
  have a7: "priv_ping_average ?s7 = [20, 30, 40, 50, 60, 70]"
    using seven lat7 by simp
  have d7: "priv_time_delta ?s7 = [2, 3, 4, 5, 6, 7]"
    using seven off7 by simp
  have l1: "latency ?s1 = Some 10" and t1: "time_delta ?s1 = Some 1"
    using one ne1 a1 d1 by (simp_all add: example_env_def)
  have l7: "latency ?s7 = Some 45" and t7: "time_delta ?s7 = Some (9 / 2)"
    using seven ne7 a7 d7 by (simp_all add: example_env_def)
  from a1 d1 l1 t1 a7 d7 l7 t7 show ?thesis by simp
qed

end
